theory Spec2Isabelle
  imports Complex_Main "HOL-Library.AList" "HOL-Library.Log_Nat" "HOL-Library.Multiset"
begin

section \<open>Python values seen by fetch\_fbref.py\<close>

text \<open>
  A Python \<open>str\<close> is a sequence of Unicode code points, so it is a list of naturals
  here (an 8-bit \<open>char\<close> cannot hold U+0301). \<open>py\<close> embeds an ASCII literal of the
  source.
\<close>

type_synonym ustr = "nat list"

definition py :: "string \<Rightarrow> ustr" where
  "py s = map of_char s"

text \<open>
  A table cell is observed by the script in three ways only: \<open>val is None\<close>,
  \<open>val == ""\<close> and \<open>str(val)\<close>. A cell is therefore \<open>None\<close>, a \<open>str\<close>, or any other
  object (a numpy integer or float, NaN included) given by the text \<open>str()\<close> returns
  for it: the integer 12 is \<open>PyOther (py ''12'')\<close>, a missing value is
  \<open>PyOther (py ''nan'')\<close>.
\<close>

datatype cell = PyNone | PyStr ustr | PyOther ustr

fun py_str :: "cell \<Rightarrow> ustr" where
  "py_str PyNone = py ''None''"
| "py_str (PyStr s) = s"
| "py_str (PyOther s) = s"

text \<open>
  The parts of the Python runtime that are tables of the Unicode database, or are
  chosen per process, are parameters of the model:
  \<^item> \<open>nfkd_beyond s\<close> is \<open>unicodedata.normalize("NFKD", s)\<close> for a text \<open>s\<close> that has
    a code point from U+0180 on (below that the table \<open>NFKD_LATIN\<close> stands here);
  \<^item> \<open>upper_tab c\<close> is \<open>str.upper\<close> of the single non-ASCII code point \<open>c\<close>;
  \<^item> \<open>digit_tab c\<close> is the decimal digit value of the non-ASCII code point \<open>c\<close>
    (general category Nd), if it has one;
  \<^item> \<open>str_hash\<close> is the builtin \<open>hash\<close> on strings, seeded per process.
\<close>

record pylib =
  nfkd_beyond :: "ustr \<Rightarrow> ustr"
  upper_tab :: "nat \<Rightarrow> ustr"
  digit_tab :: "nat \<Rightarrow> nat option"
  str_hash :: "ustr \<Rightarrow> int"

subsection \<open>unicodedata.normalize("NFKD", s)\<close>

text \<open>
  The compatibility decompositions of the Unicode database for the code points
  U+0080 to U+017F (Latin-1 Supplement and Latin Extended-A) that have one; an ASCII
  code point has none. \<open>LATIN SMALL LETTER E WITH ACUTE\<close> (233) is \<open>e\<close> and U+0301;
  \<open>LATIN CAPITAL LETTER O WITH STROKE\<close> (216) and \<open>L WITH STROKE\<close> (321, 322) have
  no entry.
\<close>

definition NFKD_LATIN :: "(nat \<times> ustr) list" where
  "NFKD_LATIN =
    [(160, [32]), (168, [32, 776]), (170, [97]), (175, [32, 772]), (178, [50]),
     (179, [51]), (180, [32, 769]), (181, [956]), (184, [32, 807]), (185, [49]),
     (186, [111]), (188, [49, 8260, 52]), (189, [49, 8260, 50]), (190, [51, 8260, 52]),
     (192, [65, 768]), (193, [65, 769]), (194, [65, 770]), (195, [65, 771]),
     (196, [65, 776]), (197, [65, 778]), (199, [67, 807]), (200, [69, 768]),
     (201, [69, 769]), (202, [69, 770]), (203, [69, 776]), (204, [73, 768]),
     (205, [73, 769]), (206, [73, 770]), (207, [73, 776]), (209, [78, 771]),
     (210, [79, 768]), (211, [79, 769]), (212, [79, 770]), (213, [79, 771]),
     (214, [79, 776]), (217, [85, 768]), (218, [85, 769]), (219, [85, 770]),
     (220, [85, 776]), (221, [89, 769]), (224, [97, 768]), (225, [97, 769]),
     (226, [97, 770]), (227, [97, 771]), (228, [97, 776]), (229, [97, 778]),
     (231, [99, 807]), (232, [101, 768]), (233, [101, 769]), (234, [101, 770]),
     (235, [101, 776]), (236, [105, 768]), (237, [105, 769]), (238, [105, 770]),
     (239, [105, 776]), (241, [110, 771]), (242, [111, 768]), (243, [111, 769]),
     (244, [111, 770]), (245, [111, 771]), (246, [111, 776]), (249, [117, 768]),
     (250, [117, 769]), (251, [117, 770]), (252, [117, 776]), (253, [121, 769]),
     (255, [121, 776]), (256, [65, 772]), (257, [97, 772]), (258, [65, 774]),
     (259, [97, 774]), (260, [65, 808]), (261, [97, 808]), (262, [67, 769]),
     (263, [99, 769]), (264, [67, 770]), (265, [99, 770]), (266, [67, 775]),
     (267, [99, 775]), (268, [67, 780]), (269, [99, 780]), (270, [68, 780]),
     (271, [100, 780]), (274, [69, 772]), (275, [101, 772]), (276, [69, 774]),
     (277, [101, 774]), (278, [69, 775]), (279, [101, 775]), (280, [69, 808]),
     (281, [101, 808]), (282, [69, 780]), (283, [101, 780]), (284, [71, 770]),
     (285, [103, 770]), (286, [71, 774]), (287, [103, 774]), (288, [71, 775]),
     (289, [103, 775]), (290, [71, 807]), (291, [103, 807]), (292, [72, 770]),
     (293, [104, 770]), (296, [73, 771]), (297, [105, 771]), (298, [73, 772]),
     (299, [105, 772]), (300, [73, 774]), (301, [105, 774]), (302, [73, 808]),
     (303, [105, 808]), (304, [73, 775]), (306, [73, 74]), (307, [105, 106]),
     (308, [74, 770]), (309, [106, 770]), (310, [75, 807]), (311, [107, 807]),
     (313, [76, 769]), (314, [108, 769]), (315, [76, 807]), (316, [108, 807]),
     (317, [76, 780]), (318, [108, 780]), (319, [76, 183]), (320, [108, 183]),
     (323, [78, 769]), (324, [110, 769]), (325, [78, 807]), (326, [110, 807]),
     (327, [78, 780]), (328, [110, 780]), (329, [700, 110]), (332, [79, 772]),
     (333, [111, 772]), (334, [79, 774]), (335, [111, 774]), (336, [79, 779]),
     (337, [111, 779]), (340, [82, 769]), (341, [114, 769]), (342, [82, 807]),
     (343, [114, 807]), (344, [82, 780]), (345, [114, 780]), (346, [83, 769]),
     (347, [115, 769]), (348, [83, 770]), (349, [115, 770]), (350, [83, 807]),
     (351, [115, 807]), (352, [83, 780]), (353, [115, 780]), (354, [84, 807]),
     (355, [116, 807]), (356, [84, 780]), (357, [116, 780]), (360, [85, 771]),
     (361, [117, 771]), (362, [85, 772]), (363, [117, 772]), (364, [85, 774]),
     (365, [117, 774]), (366, [85, 778]), (367, [117, 778]), (368, [85, 779]),
     (369, [117, 779]), (370, [85, 808]), (371, [117, 808]), (372, [87, 770]),
     (373, [119, 770]), (374, [89, 770]), (375, [121, 770]), (376, [89, 776]),
     (377, [90, 769]), (378, [122, 769]), (379, [90, 775]), (380, [122, 775]),
     (381, [90, 780]), (382, [122, 780]), (383, [115])]"

definition decompose :: "nat \<Rightarrow> ustr" where
  "decompose c =
     (if c < 128 then [c]
      else case map_of NFKD_LATIN c of None \<Rightarrow> [c] | Some d \<Rightarrow> d)"

text \<open>
  No code point below U+0180 is a combining mark, and each decomposition above is a
  base followed by at most one mark, so the canonical ordering step of NFKD moves
  nothing: the normal form of a text over these code points is the concatenation of
  the decompositions.
\<close>

definition nfkd :: "pylib \<Rightarrow> ustr \<Rightarrow> ustr" where
  "nfkd L s =
     (if list_all (\<lambda>c. c < 384) s then concat (map decompose s) else nfkd_beyond L s)"

subsection \<open>str.strip, str.upper, str.lower, str.split\<close>

text \<open>
  \<open>str.strip()\<close> removes the code points for which \<open>str.isspace\<close> holds: the ASCII
  ones 0x09-0x0D, 0x1C-0x1F, 0x20 and the non-ASCII ones listed.
\<close>

definition is_space :: "nat \<Rightarrow> bool" where
  "is_space c \<longleftrightarrow>
     (9 \<le> c \<and> c \<le> 13) \<or> (28 \<le> c \<and> c \<le> 32) \<or> c = 133 \<or> c = 160 \<or> c = 5760 \<or>
     (8192 \<le> c \<and> c \<le> 8202) \<or> c = 8232 \<or> c = 8233 \<or> c = 8239 \<or> c = 8287 \<or> c = 12288"

definition strip :: "ustr \<Rightarrow> ustr" where
  "strip s = rev (dropWhile is_space (rev (dropWhile is_space s)))"

definition upper_cp :: "pylib \<Rightarrow> nat \<Rightarrow> ustr" where
  "upper_cp L c =
     (if 97 \<le> c \<and> c \<le> 122 then [c - 32] else if c < 128 then [c] else upper_tab L c)"

definition upper :: "pylib \<Rightarrow> ustr \<Rightarrow> ustr" where
  "upper L s = concat (map (upper_cp L) s)"

text \<open>
  \<open>str.lower\<close> is only applied to the result of \<open>.decode("ascii")\<close>, whose code
  points are below 128; there it maps A-Z to a-z and nothing else.
\<close>

definition lower_cp :: "nat \<Rightarrow> nat" where
  "lower_cp c = (if 65 \<le> c \<and> c \<le> 90 then c + 32 else c)"

definition lower_ascii :: "ustr \<Rightarrow> ustr" where
  "lower_ascii s = map lower_cp s"

text \<open>\<open>s.split(",")[0]\<close>: the text before the first comma.\<close>

definition split_comma_first :: "ustr \<Rightarrow> ustr" where
  "split_comma_first s = takeWhile (\<lambda>c. c \<noteq> 44) s"

section \<open>Position mapping\<close>

definition POS_MAP :: "(ustr \<times> ustr) list" where
  "POS_MAP =
    [(py ''GK'', py ''GK''),
     (py ''DF'', py ''DEF''), (py ''DF,MF'', py ''DEF''), (py ''DF,FW'', py ''DEF''),
     (py ''MF'', py ''MID''), (py ''MF,DF'', py ''MID''), (py ''MF,FW'', py ''MID''),
     (py ''FW'', py ''FWD''), (py ''FW,MF'', py ''FWD''), (py ''FW,DF'', py ''FWD'')]"

text \<open>\<open>d.get(k, default)\<close> on a dictionary given as an association list.\<close>

definition dict_get :: "('k \<times> 'v) list \<Rightarrow> 'k \<Rightarrow> 'v \<Rightarrow> 'v" where
  "dict_get d k dflt = (case map_of d k of None \<Rightarrow> dflt | Some v \<Rightarrow> v)"

text \<open>
  Lines 156-157 of main: \<open>pos_raw = str(...).split(",")[0].strip().upper()\<close> and
  \<open>pos = POS_MAP.get(pos_raw, "MID")\<close>, as a function of the text of the Pos cell.
\<close>

definition pos_raw :: "pylib \<Rightarrow> ustr \<Rightarrow> ustr" where
  "pos_raw L tag = upper L (strip (split_comma_first tag))"

definition classify :: "pylib \<Rightarrow> ustr \<Rightarrow> ustr" where
  "classify L tag = dict_get POS_MAP (pos_raw L tag) (py ''MID'')"

section \<open>Value coercion: safe\_int\<close>

subsection \<open>The builtins float and int\<close>

text \<open>
  \<open>float(s)\<close> on a \<open>str\<close> (CPython 3.6 and later) maps every non-ASCII code point to
  ASCII (white space to a blank, a Unicode decimal digit to its ASCII digit, anything
  else to a question mark), strips ASCII white space, accepts single underscores
  between digits, and parses \<open>[sign] (digits [. digits] | . digits) [e [sign] digits]\<close>
  or, ignoring case, \<open>[sign] inf\<close>, \<open>[sign] infinity\<close>, \<open>[sign] nan\<close>. The whole text
  must be consumed, else ValueError. A number is rounded to the nearest IEEE-754
  binary64 value, ties to even, and to infinity from \<open>2^1024 - 2^970\<close> on; a finite
  float is the rational it denotes. \<open>int(x)\<close> truncates a finite float toward zero and
  raises OverflowError on an infinity and ValueError on a NaN. (CPython's conversion
  is correctly rounded for a text of fewer than \<open>10^9\<close> digits, which is every text
  a table cell can hold.)
\<close>

datatype pyerr = ValueError | OverflowError

datatype pyfloat = Finite rat | Infinity | NaN

definition pow2 :: "int \<Rightarrow> rat" where
  "pow2 k = (if 0 \<le> k then 2 ^ nat k else 1 / 2 ^ nat (- k))"

definition pow10 :: "int \<Rightarrow> rat" where
  "pow10 k = (if 0 \<le> k then 10 ^ nat k else 1 / 10 ^ nat (- k))"

text \<open>For \<open>0 < x\<close>, the \<open>e\<close> with \<open>2^e \<le> x < 2^(e+1)\<close>.\<close>

definition binary_exponent :: "rat \<Rightarrow> int" where
  "binary_exponent x =
     (if 1 \<le> x then bitlen \<lfloor>x\<rfloor> - 1 else - bitlen (\<lceil>1 / x\<rceil> - 1))"

definition round_half_even :: "rat \<Rightarrow> int" where
  "round_half_even y =
     (let f = \<lfloor>y\<rfloor>; r = y - of_int f
      in if r < 1 / 2 then f else if 1 / 2 < r then f + 1
         else if even f then f else f + 1)"

text \<open>
  A binary64 value has 53 significant bits and a least exponent of -1022, so the
  spacing of the values around \<open>x\<close> is \<open>2^(max e (-1022) - 52)\<close>.
\<close>

definition nearest_double :: "rat \<Rightarrow> pyfloat" where
  "nearest_double x =
     (if x = 0 then Finite 0
      else let a = \<bar>x\<bar>;
               t = max (binary_exponent a) (- 1022) - 52;
               d = of_int (round_half_even (a / pow2 t)) * pow2 t
           in if 2 ^ 1024 \<le> d then Infinity else Finite (if x < 0 then - d else d))"

definition is_digit :: "nat \<Rightarrow> bool" where
  "is_digit c \<longleftrightarrow> 48 \<le> c \<and> c \<le> 57"

definition digits_value :: "ustr \<Rightarrow> nat" where
  "digits_value ds = foldl (\<lambda>a c. 10 * a + (c - 48)) 0 ds"

definition to_ascii_cp :: "pylib \<Rightarrow> nat \<Rightarrow> nat" where
  "to_ascii_cp L c =
     (if c < 128 then c else if is_space c then 32
      else case digit_tab L c of Some d \<Rightarrow> 48 + d | None \<Rightarrow> 63)"

definition is_c_space :: "nat \<Rightarrow> bool" where
  "is_c_space c \<longleftrightarrow> (9 \<le> c \<and> c \<le> 13) \<or> c = 32"

text \<open>
  Underscores: one is allowed only after a digit and before a digit; the first
  argument is the previous character (0 at the start).
\<close>

fun strip_underscores :: "nat \<Rightarrow> ustr \<Rightarrow> ustr option" where
  "strip_underscores prev [] = (if prev = 95 then None else Some [])"
| "strip_underscores prev (c # cs) =
     (if c = 95 then (if is_digit prev then strip_underscores c cs else None)
      else if prev = 95 \<and> \<not> is_digit c then None
      else map_option ((#) c) (strip_underscores c cs))"

definition parse_sign :: "ustr \<Rightarrow> bool \<times> ustr" where
  "parse_sign s =
     (case s of [] \<Rightarrow> (False, [])
      | c # cs \<Rightarrow> if c = 45 then (True, cs) else if c = 43 then (False, cs) else (False, s))"

text \<open>The text after the mantissa: nothing, or a complete exponent.\<close>

definition parse_exponent :: "ustr \<Rightarrow> int option" where
  "parse_exponent r =
     (case r of [] \<Rightarrow> Some 0
      | c # cs \<Rightarrow>
          if c = 101 \<or> c = 69 then
            (let (neg, ds) = parse_sign cs
             in if ds \<noteq> [] \<and> list_all is_digit ds
                then Some (if neg then - int (digits_value ds) else int (digits_value ds))
                else None)
          else None)"

text \<open>An unsigned number: its digits as a natural and its power of ten.\<close>

definition parse_number :: "ustr \<Rightarrow> (nat \<times> int) option" where
  "parse_number s =
     (let ip = takeWhile is_digit s; r = dropWhile is_digit s;
          (fp, r') = (case r of [] \<Rightarrow> ([], [])
                      | c # cs \<Rightarrow> if c = 46 then (takeWhile is_digit cs, dropWhile is_digit cs)
                                 else ([], r))
      in if ip @ fp = [] then None
         else case parse_exponent r' of None \<Rightarrow> None
              | Some e \<Rightarrow> Some (digits_value (ip @ fp), e - int (length fp)))"

definition parse_inf_nan :: "ustr \<Rightarrow> pyfloat option" where
  "parse_inf_nan s =
     (let w = lower_ascii (snd (parse_sign s))
      in if w = py ''inf'' \<or> w = py ''infinity'' then Some Infinity
         else if w = py ''nan'' then Some NaN else None)"

text \<open>
  The exact value of a text that is a decimal number: \<open>None\<close> when it is not one.
\<close>

definition decimal_value :: "pylib \<Rightarrow> ustr \<Rightarrow> rat option" where
  "decimal_value L s =
     (let b = dropWhile is_c_space (map (to_ascii_cp L) s)
      in if b = [] then None
         else case strip_underscores 0 (rev (dropWhile is_c_space (rev b))) of
                None \<Rightarrow> None
              | Some u \<Rightarrow>
                 (let (neg, body) = parse_sign u
                  in case parse_number body of None \<Rightarrow> None
                     | Some (m, k) \<Rightarrow>
                         Some ((if neg then - 1 else 1) * of_nat m * pow10 k)))"

definition py_float :: "pylib \<Rightarrow> ustr \<Rightarrow> pyerr + pyfloat" where
  "py_float L s =
     (case decimal_value L s of
        Some x \<Rightarrow> Inr (nearest_double x)
      | None \<Rightarrow>
         (let b = dropWhile is_c_space (map (to_ascii_cp L) s)
          in if b = [] then Inl ValueError
             else case strip_underscores 0 (rev (dropWhile is_c_space (rev b))) of
                    None \<Rightarrow> Inl ValueError
                  | Some u \<Rightarrow> (case parse_inf_nan u of None \<Rightarrow> Inl ValueError
                               | Some f \<Rightarrow> Inr f)))"

definition trunc_zero :: "rat \<Rightarrow> int" where
  "trunc_zero r = (if 0 \<le> r then \<lfloor>r\<rfloor> else \<lceil>r\<rceil>)"

fun py_int :: "pyfloat \<Rightarrow> pyerr + int" where
  "py_int (Finite r) = Inr (trunc_zero r)"
| "py_int Infinity = Inl OverflowError"
| "py_int NaN = Inl ValueError"

subsection \<open>safe\_int\<close>

text \<open>
  Lines 52-58. The bare \<open>except\<close> turns every error of \<open>float\<close> and \<open>int\<close> into 0.
\<close>

definition safe_int :: "pylib \<Rightarrow> cell \<Rightarrow> int" where
  "safe_int L val =
     (if val = PyNone \<or> val = PyStr [] \<or>
         strip (py_str val) \<in> set [[], py ''nan'', py ''NaN'']
      then 0
      else case py_float L (strip (py_str val)) of
             Inl e \<Rightarrow> 0
           | Inr f \<Rightarrow> (case py_int f of Inl e \<Rightarrow> 0 | Inr n \<Rightarrow> n))"

section \<open>Identity normalisation\<close>

text \<open>
  Lines 95-100. \<open>.encode("ascii", "ignore").decode("ascii")\<close> drops every code point
  from 128 on.
\<close>

definition normalise_name :: "pylib \<Rightarrow> cell \<Rightarrow> ustr" where
  "normalise_name L name =
     (case name of
        PyStr s \<Rightarrow> lower_ascii (strip (filter (\<lambda>c. c < 128) (nfkd L s)))
      | _ \<Rightarrow> [])"

section \<open>Player records and scoring\<close>

text \<open>
  The dictionary built at lines 168-189 has every key below, so the defaults of
  \<open>p.get(key, 0)\<close> in \<open>calculate_points\<close> are never taken on it; it is a record here.
  The key \<open>"id"\<close> is the field \<open>player_id\<close>. Line 239 adds the key \<open>"points"\<close>.
\<close>

record player =
  player_id :: int
  name :: ustr
  club :: ustr
  pos :: ustr
  goals :: int
  assists :: int
  yellowCards :: int
  redCards :: int
  ownGoals :: int
  penaltiesMissed :: int
  shotsOnTarget :: int
  cleanSheets :: int
  saves :: int
  penaltySaves :: int
  goalsConceded :: int
  tacklesWon :: int
  interceptions :: int
  keyPasses :: int
  bigChancesCreated :: int
  motm :: int

record scored_player = player +
  points :: int

text \<open>Lines 103-137. Python's \<open>//\<close> on integers is floor division, as \<open>div\<close> on \<open>int\<close>.\<close>

definition calculate_points :: "'a player_scheme \<Rightarrow> int" where
  "calculate_points p =
     (let pts = 0;
          pts =
            (if pos p = py ''GK'' then
               (let pts = pts + cleanSheets p * 4;
                    pts = pts + saves p div 3;
                    pts = pts + penaltySaves p * 5;
                    pts = pts - goalsConceded p div 2
                in pts)
             else if pos p = py ''DEF'' then
               (let pts = pts + goals p * 6;
                    pts = pts + assists p * 3;
                    pts = pts + cleanSheets p * 4;
                    pts = pts + tacklesWon p * 1;
                    pts = pts + interceptions p * 1
                in pts)
             else if pos p = py ''MID'' then
               (let pts = pts + goals p * 5;
                    pts = pts + assists p * 3;
                    pts = pts + cleanSheets p * 1;
                    pts = pts + keyPasses p * 1;
                    pts = pts + shotsOnTarget p * 1;
                    pts = pts + bigChancesCreated p * 1
                in pts)
             else if pos p = py ''FWD'' then
               (let pts = pts + goals p * 4;
                    pts = pts + assists p * 3;
                    pts = pts + shotsOnTarget p * 1;
                    pts = pts + bigChancesCreated p * 1
                in pts)
             else pts);
          pts = pts + yellowCards p * (- 1);
          pts = pts + redCards p * (- 3);
          pts = pts + ownGoals p * (- 2);
          pts = pts + penaltiesMissed p * (- 2)
      in pts)"

section \<open>The pipeline: main\<close>

text \<open>
  A row of a table is a pandas Series: a finite map from column labels to cells. A
  table is the sequence of rows \<open>iterrows()\<close> yields. \<open>fetch_table\<close> (HTTP and HTML
  parsing) is outside the model: \<open>main\<close> takes what the four calls return, \<open>None\<close> for
  a failed fetch.
\<close>

type_synonym row = "ustr \<rightharpoonup> cell"

type_synonym table = "row list"

definition row_get :: "row \<Rightarrow> ustr \<Rightarrow> cell \<Rightarrow> cell" where
  "row_get r k dflt = (case r k of None \<Rightarrow> dflt | Some v \<Rightarrow> v)"

text \<open>\<open>name = str(row.get("Player", "")).strip()\<close> and the test that skips a row.\<close>

definition player_name :: "row \<Rightarrow> ustr" where
  "player_name r = strip (py_str (row_get r (py ''Player'') (PyStr [])))"

definition skip_name :: "ustr \<Rightarrow> bool" where
  "skip_name n \<longleftrightarrow> n = [] \<or> n = py ''Player''"

text \<open>The local function \<open>get\<close> of lines 161-165: the first alias that is a column.\<close>

fun get_stat :: "pylib \<Rightarrow> row \<Rightarrow> ustr list \<Rightarrow> int \<Rightarrow> int" where
  "get_stat L r [] dflt = dflt"
| "get_stat L r (k # ks) dflt =
     (case r k of Some v \<Rightarrow> safe_int L v | None \<Rightarrow> get_stat L r ks dflt)"

text \<open>
  The record of lines 168-189 for a row of the primary table, from the name and the
  position computed at lines 152-157.
\<close>

definition new_player :: "pylib \<Rightarrow> row \<Rightarrow> player" where
  "new_player L r =
     (let n = player_name r;
          p = classify L (py_str (row_get r (py ''Pos'') (PyStr (py ''MF''))))
      in \<lparr> player_id = \<bar>str_hash L n\<bar> mod 100000,
           name = n,
           club = strip (py_str (row_get r (py ''Squad'') (PyStr (py ''Unknown'')))),
           pos = p,
           goals = get_stat L r [py ''Gls'', py ''Goals''] 0,
           assists = get_stat L r [py ''Ast'', py ''Assists''] 0,
           yellowCards = get_stat L r [py ''CrdY''] 0,
           redCards = get_stat L r [py ''CrdR''] 0,
           ownGoals = get_stat L r [py ''OG''] 0,
           penaltiesMissed = get_stat L r [py ''PKmiss'', py ''PKM''] 0,
           shotsOnTarget = get_stat L r [py ''SoT''] 0,
           cleanSheets = 0,
           saves = 0,
           penaltySaves = 0,
           goalsConceded = 0,
           tacklesWon = 0,
           interceptions = 0,
           keyPasses = 0,
           bigChancesCreated = 0,
           motm = 0 \<rparr>)"

text \<open>
  The dictionary \<open>players\<close> keeps insertion order, and assigning to a key it has
  keeps the key's place: \<open>AList.update\<close>. The body of the loop of lines 151-189:
\<close>

type_synonym players = "(ustr \<times> player) list"

definition row_key :: "pylib \<Rightarrow> row \<Rightarrow> ustr" where
  "row_key L r = normalise_name L (PyStr (player_name r))"

definition seed_row :: "pylib \<Rightarrow> players \<Rightarrow> row \<Rightarrow> players" where
  "seed_row L ps r =
     (if skip_name (player_name r) then ps
      else AList.update (row_key L r) (new_player L r) ps)"

definition seed :: "pylib \<Rightarrow> table \<Rightarrow> players" where
  "seed L std = foldl (seed_row L) [] std"

text \<open>
  The enrichment loops of lines 196-205, 211-219 and 225-233. \<open>row.get("CS", 0)\<close>
  defaults to the integer 0. \<open>players[key]["cleanSheets"] = ...\<close> changes the record
  stored at \<open>key\<close> in place.
\<close>

definition zero_cell :: cell where
  "zero_cell = PyOther (py ''0'')"

definition merge_row ::
    "pylib \<Rightarrow> (row \<Rightarrow> player \<Rightarrow> player) \<Rightarrow> players \<Rightarrow> row \<Rightarrow> players" where
  "merge_row L upd ps r =
     (if skip_name (player_name r) then ps
      else if map_of ps (row_key L r) \<noteq> None
           then AList.map_entry (row_key L r) (upd r) ps
           else ps)"

definition gk_fields :: "pylib \<Rightarrow> row \<Rightarrow> player \<Rightarrow> player" where
  "gk_fields L r p =
     p\<lparr> cleanSheets := safe_int L (row_get r (py ''CS'') zero_cell),
        saves := safe_int L (row_get r (py ''Saves'') zero_cell),
        penaltySaves := safe_int L (row_get r (py ''PKsv'') zero_cell),
        goalsConceded := safe_int L (row_get r (py ''GA'') zero_cell) \<rparr>"

definition def_fields :: "pylib \<Rightarrow> row \<Rightarrow> player \<Rightarrow> player" where
  "def_fields L r p =
     p\<lparr> tacklesWon := safe_int L (row_get r (py ''TklW'') zero_cell),
        interceptions := safe_int L (row_get r (py ''Int'') zero_cell) \<rparr>"

definition pass_fields :: "pylib \<Rightarrow> row \<Rightarrow> player \<Rightarrow> player" where
  "pass_fields L r p =
     p\<lparr> keyPasses := safe_int L (row_get r (py ''KP'') zero_cell),
        bigChancesCreated := safe_int L (row_get r (py ''PPA'') zero_cell) \<rparr>"

text \<open>One pass: \<open>if tbl is not None: for _, row in tbl.iterrows(): ...\<close>\<close>

definition merge_table ::
    "pylib \<Rightarrow> (row \<Rightarrow> player \<Rightarrow> player) \<Rightarrow> table option \<Rightarrow> players \<Rightarrow> players" where
  "merge_table L upd tbl ps =
     (case tbl of None \<Rightarrow> ps | Some t \<Rightarrow> foldl (merge_row L upd) ps t)"

definition merge_gk :: "pylib \<Rightarrow> table option \<Rightarrow> players \<Rightarrow> players" where
  "merge_gk L = merge_table L (gk_fields L)"

definition merge_def :: "pylib \<Rightarrow> table option \<Rightarrow> players \<Rightarrow> players" where
  "merge_def L = merge_table L (def_fields L)"

definition merge_pass :: "pylib \<Rightarrow> table option \<Rightarrow> players \<Rightarrow> players" where
  "merge_pass L = merge_table L (pass_fields L)"

text \<open>The mapping after the seeding pass and the three enrichment passes.\<close>

definition merged ::
    "pylib \<Rightarrow> table \<Rightarrow> table option \<Rightarrow> table option \<Rightarrow> table option \<Rightarrow> players" where
  "merged L std gk defn passing =
     merge_pass L passing (merge_def L defn (merge_gk L gk (seed L std)))"

text \<open>Lines 237-239: \<open>p["points"] = calculate_points(p)\<close> for each value.\<close>

definition add_points :: "player \<Rightarrow> scored_player" where
  "add_points p =
     \<lparr> player_id = player_id p, name = name p, club = club p, pos = pos p,
       goals = goals p, assists = assists p, yellowCards = yellowCards p,
       redCards = redCards p, ownGoals = ownGoals p,
       penaltiesMissed = penaltiesMissed p, shotsOnTarget = shotsOnTarget p,
       cleanSheets = cleanSheets p, saves = saves p, penaltySaves = penaltySaves p,
       goalsConceded = goalsConceded p, tacklesWon = tacklesWon p,
       interceptions = interceptions p, keyPasses = keyPasses p,
       bigChancesCreated = bigChancesCreated p, motm = motm p,
       points = calculate_points p \<rparr>"

definition player_list :: "players \<Rightarrow> scored_player list" where
  "player_list ps = map add_points (map snd ps)"

text \<open>
  Line 242: \<open>list.sort(key=..., reverse=True)\<close> is the stable sort by descending key,
  that is the stable sort by ascending negated key.
\<close>

definition sort_desc :: "scored_player list \<Rightarrow> scored_player list" where
  "sort_desc xs = sort_key (\<lambda>p. - points p) xs"

record document =
  updatedAt :: ustr
  season :: ustr
  league :: ustr
  source :: ustr
  players_out :: "scored_player list"

text \<open>
  A run ends in \<open>exit(1)\<close> with nothing written, or writes the document and ends
  with exit code 0. \<open>now\<close> is the text of \<open>datetime.utcnow().isoformat()\<close>.
\<close>

datatype run = Exit nat | Written document

fun exit_code :: "run \<Rightarrow> nat" where
  "exit_code (Exit n) = n"
| "exit_code (Written d) = 0"

fun written :: "run \<Rightarrow> document option" where
  "written (Exit n) = None"
| "written (Written d) = Some d"

definition main ::
    "pylib \<Rightarrow> ustr \<Rightarrow> table option \<Rightarrow> table option \<Rightarrow> table option \<Rightarrow> table option \<Rightarrow> run"
  where
  "main L now std gk defn passing =
     (case std of
        None \<Rightarrow> Exit 1
      | Some t \<Rightarrow>
          Written \<lparr> updatedAt = now @ py ''Z'',
                    season = py ''2024-25'',
                    league = py ''La Liga'',
                    source = py ''FBref.com'',
                    players_out = sort_desc (player_list (merged L t gk defn passing)) \<rparr>)"

section \<open>A runtime and views for the statements\<close>

text \<open>
  A concrete runtime for the examples: no entry for a code point outside the tables
  of this theory, and a hash that is negative.
\<close>

definition example_lib :: pylib where
  "example_lib =
     \<lparr> nfkd_beyond = (\<lambda>s. s),
       upper_tab = (\<lambda>c. [c]),
       digit_tab = (\<lambda>c. None),
       str_hash = (\<lambda>s. - int (sum_list s)) \<rparr>"



text \<open>
  What a pass must leave alone: a record with the fields the pass owns blanked, and
  the fields that come from the primary table.
\<close>

definition erase_gk :: "player \<Rightarrow> player" where
  "erase_gk p = p\<lparr> cleanSheets := 0, saves := 0, penaltySaves := 0, goalsConceded := 0 \<rparr>"

definition erase_def :: "player \<Rightarrow> player" where
  "erase_def p = p\<lparr> tacklesWon := 0, interceptions := 0 \<rparr>"

definition erase_pass :: "player \<Rightarrow> player" where
  "erase_pass p = p\<lparr> keyPasses := 0, bigChancesCreated := 0 \<rparr>"

definition standard_view ::
  "player \<Rightarrow> int \<times> ustr \<times> ustr \<times> ustr \<times> int \<times> int \<times> int \<times> int \<times> int \<times> int \<times> int \<times> int" where
  "standard_view p =
     (player_id p, name p, club p, pos p, goals p, assists p, yellowCards p, redCards p,
      ownGoals p, penaltiesMissed p, shotsOnTarget p, motm p)"

text \<open>
  Example tables. The primary table has a goalkeeper with an accented name, two
  midfielders with equal statistics and a repeated header row; the goalkeeping and
  passing tables name a player the primary table does not have; the defensive fetch
  fails in the example run.
\<close>

definition mk_row :: "(string \<times> cell) list \<Rightarrow> row" where
  "mk_row kvs = map_of (map (\<lambda>(k, v). (py k, v)) kvs)"

definition example_std :: table where
  "example_std =
     [mk_row [(''Player'', PyStr [74, 111, 115, 233]), (''Pos'', PyStr (py ''GK'')),
              (''Squad'', PyStr (py ''Betis'')), (''Gls'', PyOther (py ''0'')),
              (''CrdY'', PyOther (py ''1''))],
      mk_row [(''Player'', PyStr (py ''Pedri'')), (''Pos'', PyStr (py ''MF,FW'')),
              (''Squad'', PyStr (py ''Barcelona'')), (''Gls'', PyStr (py ''3'')),
              (''Ast'', PyStr (py ''2.0''))],
      mk_row [(''Player'', PyStr (py ''Player'')), (''Pos'', PyStr (py ''Pos''))],
      mk_row [(''Player'', PyStr (py ''Gavi'')), (''Pos'', PyStr (py ''MF'')),
              (''Squad'', PyStr (py ''Barcelona'')), (''Goals'', PyOther (py ''3'')),
              (''Ast'', PyOther (py ''2''))]]"

definition example_gk :: table where
  "example_gk =
     [mk_row [(''Player'', PyStr (py ''Jose'')), (''CS'', PyOther (py ''2'')),
              (''Saves'', PyOther (py ''10'')), (''PKsv'', PyOther (py ''1'')),
              (''GA'', PyOther (py ''3''))],
      mk_row [(''Player'', PyStr (py ''Ghost'')), (''CS'', PyOther (py ''9''))]]"

definition example_pass :: table where
  "example_pass =
     [mk_row [(''Player'', PyStr (py ''Ghost'')), (''KP'', PyOther (py ''5''))],
      mk_row [(''Player'', PyStr (py '' GAVI '')), (''KP'', PyOther (py ''nan'')),
              (''PPA'', PyStr (py ''abc''))]]"

text \<open>The document the example run writes.\<close>

definition example_now :: ustr where
  "example_now = py ''2025-01-01T00:00:00''"

definition example_players :: "scored_player list" where
  "example_players =
     [\<lparr> player_id = 500, name = py ''Pedri'', club = py ''Barcelona'', pos = py ''MID'',
         goals = 3, assists = 2, yellowCards = 0, redCards = 0, ownGoals = 0, penaltiesMissed = 0,
         shotsOnTarget = 0, cleanSheets = 0, saves = 0, penaltySaves = 0, goalsConceded = 0,
         tacklesWon = 0, interceptions = 0, keyPasses = 0, bigChancesCreated = 0, motm = 0,
         points = 21 \<rparr>,
      \<lparr> player_id = 391, name = py ''Gavi'', club = py ''Barcelona'', pos = py ''MID'',
         goals = 3, assists = 2, yellowCards = 0, redCards = 0, ownGoals = 0, penaltiesMissed = 0,
         shotsOnTarget = 0, cleanSheets = 0, saves = 0, penaltySaves = 0, goalsConceded = 0,
         tacklesWon = 0, interceptions = 0, keyPasses = 0, bigChancesCreated = 0, motm = 0,
         points = 21 \<rparr>,
      \<lparr> player_id = 533, name = [74, 111, 115, 233], club = py ''Betis'', pos = py ''GK'',
         goals = 0, assists = 0, yellowCards = 1, redCards = 0, ownGoals = 0, penaltiesMissed = 0,
         shotsOnTarget = 0, cleanSheets = 2, saves = 10, penaltySaves = 1, goalsConceded = 3,
         tacklesWon = 0, interceptions = 0, keyPasses = 0, bigChancesCreated = 0, motm = 0,
         points = 14 \<rparr>]"

definition example_doc :: document where
  "example_doc =
     \<lparr> updatedAt = py ''2025-01-01T00:00:00Z'', season = py ''2024-25'',
       league = py ''La Liga'', source = py ''FBref.com'', players_out = example_players \<rparr>"

section \<open>Properties\<close>

subsection \<open>The record mapping through the passes\<close>

text \<open>
  A view \<open>g\<close> of a record that an update function does not change is the same, key
  by key and in the same order, before and after a pass.
\<close>

lemma map_entry_view:
  assumes "\<And>p. g (f p) = g p"
  shows "map (apsnd g) (AList.map_entry k f ps) = map (apsnd g) ps"
  by (induction ps) (auto simp: assms)

lemma merge_row_view:
  assumes "\<And>r p. g (upd r p) = g p"
  shows "map (apsnd g) (merge_row L upd ps r) = map (apsnd g) ps"
  by (simp add: merge_row_def map_entry_view assms)

lemma merge_table_view:
  assumes "\<And>r p. g (upd r p) = g p"
  shows "map (apsnd g) (merge_table L upd tbl ps) = map (apsnd g) ps"
proof (cases tbl)
  case None
  then show ?thesis by (simp add: merge_table_def)
next
  case (Some t)
  have "map (apsnd g) (foldl (merge_row L upd) ps t) = map (apsnd g) ps"
  proof (induction t arbitrary: ps)
    case Nil
    show ?case by simp
  next
    case (Cons r t)
    show ?case by (simp add: Cons.IH merge_row_view assms)
  qed
  with Some show ?thesis by (simp add: merge_table_def)
qed

lemma view_keys:
  assumes "map (apsnd g) A = map (apsnd g) B"
  shows "map fst A = map fst B"
proof -
  have "map fst (map (apsnd g) A) = map fst (map (apsnd g) B)"
    using assms by simp
  then show ?thesis by (simp add: comp_def)
qed

lemma view_mem:
  assumes "map (apsnd g) A = map (apsnd g) B" and "(k, p) \<in> set A"
  shows "\<exists>p0. (k, p0) \<in> set B \<and> g p0 = g p"
proof -
  have "(k, g p) \<in> set (map (apsnd g) A)"
    using assms(2) by force
  then have "(k, g p) \<in> set (map (apsnd g) B)"
    using assms(1) by simp
  then show ?thesis by auto
qed

lemma merged_view:
  assumes "\<And>r p. g (gk_fields L r p) = g p"
    and "\<And>r p. g (def_fields L r p) = g p"
    and "\<And>r p. g (pass_fields L r p) = g p"
  shows "map (apsnd g) (merged L std gk defn passing) = map (apsnd g) (seed L std)"
  by (simp add: merged_def merge_gk_def merge_def_def merge_pass_def
      merge_table_view [where g = g] assms)

lemma update_mem:
  "(k', p) \<in> set (AList.update k v al) \<Longrightarrow> (k', p) \<in> set al \<or> (k' = k \<and> p = v)"
  by (induction al) (auto split: if_splits)

lemma seed_row_mem:
  assumes "(k, p) \<in> set (seed_row L ps r)"
  shows "(k, p) \<in> set ps \<or>
         (\<not> skip_name (player_name r) \<and> k = row_key L r \<and> p = new_player L r)"
  using assms by (auto simp: seed_row_def dest: update_mem split: if_splits)

lemma seed_row_keys:
  "fst ` set (seed_row L ps r) =
     fst ` set ps \<union> (if skip_name (player_name r) then {} else {row_key L r})"
  by (simp add: seed_row_def dom_update)

lemma seed_fold_mem:
  assumes "(k, p) \<in> set (foldl (seed_row L) ps0 t)"
  shows "(k, p) \<in> set ps0 \<or>
         (\<exists>r\<in>set t. \<not> skip_name (player_name r) \<and> k = row_key L r \<and> p = new_player L r)"
  using assms
proof (induction t arbitrary: ps0)
  case Nil
  then show ?case by simp
next
  case (Cons r t)
  from Cons.prems have "(k, p) \<in> set (foldl (seed_row L) (seed_row L ps0 r) t)"
    by simp
  from Cons.IH [OF this] seed_row_mem [of k p L ps0 r]
  show ?case by auto
qed

lemma seed_mem:
  assumes "(k, p) \<in> set (seed L std)"
  shows "\<exists>r\<in>set std. \<not> skip_name (player_name r) \<and> k = row_key L r \<and> p = new_player L r"
  using seed_fold_mem [of k p L "[]" std] assms by (simp add: seed_def)

lemma seed_fold_keys:
  "fst ` set (foldl (seed_row L) ps0 t) =
     fst ` set ps0 \<union> row_key L ` {r \<in> set t. \<not> skip_name (player_name r)}"
proof (induction t arbitrary: ps0)
  case Nil
  show ?case by simp
next
  case (Cons r t)
  have "fst ` set (foldl (seed_row L) (seed_row L ps0 r) t) =
        fst ` set (seed_row L ps0 r) \<union> row_key L ` {r \<in> set t. \<not> skip_name (player_name r)}"
    by (rule Cons.IH)
  then show ?case
    unfolding seed_row_keys by auto
qed

lemma seed_keys:
  "fst ` set (seed L std) = row_key L ` {r \<in> set std. \<not> skip_name (player_name r)}"
  by (simp add: seed_def seed_fold_keys)

lemma player_list_mem:
  assumes "q \<in> set (sort_desc (player_list ps))"
  shows "\<exists>k p. (k, p) \<in> set ps \<and> q = add_points p"
proof -
  from assms have "q \<in> add_points ` snd ` set ps"
    by (simp add: sort_desc_def player_list_def image_comp)
  then show ?thesis by force
qed

lemma main_Written:
  assumes "main L now std gk defn passing = Written doc"
  shows "\<exists>t. std = Some t \<and>
             players_out doc = sort_desc (player_list (merged L t gk defn passing))"
  using assms by (auto simp: main_def split: option.splits)

lemma output_mem:
  assumes "main L now std gk defn passing = Written doc" and "q \<in> set (players_out doc)"
    and "\<And>r p. g (gk_fields L r p) = g p"
    and "\<And>r p. g (def_fields L r p) = g p"
    and "\<And>r p. g (pass_fields L r p) = g p"
  shows "\<exists>t k p r. std = Some t \<and> (k, p) \<in> set (merged L t gk defn passing) \<and>
           q = add_points p \<and> r \<in> set t \<and> \<not> skip_name (player_name r) \<and>
           k = row_key L r \<and> g p = g (new_player L r)"
proof -
  from main_Written [OF assms(1)] obtain t where t: "std = Some t"
    and out: "players_out doc = sort_desc (player_list (merged L t gk defn passing))"
    by blast
  from assms(2) out player_list_mem obtain k p
    where kp: "(k, p) \<in> set (merged L t gk defn passing)" and q: "q = add_points p"
    by metis
  have "map (apsnd g) (merged L t gk defn passing) = map (apsnd g) (seed L t)"
    by (rule merged_view) (rule assms)+
  from view_mem [OF this kp] obtain p0 where p0: "(k, p0) \<in> set (seed L t)" "g p0 = g p"
    by blast
  from seed_mem [OF p0(1)] obtain r where "r \<in> set t" "\<not> skip_name (player_name r)"
    "k = row_key L r" "p0 = new_player L r" by blast
  with t kp q p0 show ?thesis by metis
qed

lemma two_pass_seed:
  assumes "\<And>r p. g (u1 r p) = g p" and "\<And>r p. g (u2 r p) = g p"
    and "q \<in> set (sort_desc (player_list (merge_table L u2 t2 (merge_table L u1 t1 (seed L t)))))"
  shows "\<exists>p r. q = add_points p \<and> r \<in> set t \<and> g p = g (new_player L r)"
proof -
  from player_list_mem [OF assms(3)] obtain k p
    where kp: "(k, p) \<in> set (merge_table L u2 t2 (merge_table L u1 t1 (seed L t)))"
      and q: "q = add_points p" by blast
  have "map (apsnd g) (merge_table L u2 t2 (merge_table L u1 t1 (seed L t))) =
        map (apsnd g) (seed L t)"
    by (simp add: merge_table_view [where g = g] assms(1,2))
  from view_mem [OF this kp] obtain p0 where "(k, p0) \<in> set (seed L t)" "g p0 = g p"
    by blast
  with seed_mem [of k p0 L t] q show ?thesis by metis
qed

lemma merge_table_skip:
  "tbl = None \<or> tbl = Some [] \<Longrightarrow> merge_table L upd tbl ps = ps"
  by (auto simp: merge_table_def)

subsection \<open>Stripping and lower-casing\<close>






subsection \<open>Accented letters and their base letters\<close>






subsection \<open>Evaluation on concrete inputs\<close>

lemma bitlen_numeral_simps:
  "bitlen 1 = 1"
  "bitlen (numeral Num.One) = 1"
  "bitlen (numeral (Num.Bit0 n)) = bitlen (numeral n) + 1"
  "bitlen (numeral (Num.Bit1 n)) = bitlen (numeral n) + 1"
proof -
  show "bitlen 1 = 1" by (subst compute_bitlen) simp
  show "bitlen (numeral Num.One) = 1" by (subst compute_bitlen) simp
  show "bitlen (numeral (Num.Bit0 n)) = bitlen (numeral n) + 1"
    by (subst compute_bitlen) simp
  show "bitlen (numeral (Num.Bit1 n)) = bitlen (numeral n) + 1"
    by (subst compute_bitlen) simp
qed

lemma floor_rat_numeral_simps:
  "\<lfloor>numeral a / numeral b :: rat\<rfloor> = numeral a div numeral b"
  "\<lfloor>1 / numeral b :: rat\<rfloor> = 1 div numeral b"
  "\<lceil>numeral a / numeral b :: rat\<rceil> = - (- numeral a div numeral b)"
  "\<lceil>1 / numeral b :: rat\<rceil> = - (- 1 div numeral b)"
  "\<lceil>- (numeral a / numeral b) :: rat\<rceil> = - (numeral a div numeral b)"
  "\<lceil>- numeral a :: rat\<rceil> = - numeral a"
proof -
  show "\<lceil>- (numeral a / numeral b) :: rat\<rceil> = - (numeral a div numeral b)"
    by (metis ceiling_minus floor_divide_of_int_eq of_int_numeral)
  show "\<lceil>- numeral a :: rat\<rceil> = - numeral a"
    by simp
  show "\<lfloor>numeral a / numeral b :: rat\<rfloor> = numeral a div numeral b"
    by (metis floor_divide_of_int_eq of_int_numeral)
  show "\<lfloor>1 / numeral b :: rat\<rfloor> = 1 div numeral b"
    by (metis floor_divide_of_int_eq of_int_1 of_int_numeral)
  show "\<lceil>numeral a / numeral b :: rat\<rceil> = - (- numeral a div numeral b)"
    by (metis ceiling_def divide_minus_left floor_divide_of_int_eq of_int_neg_numeral of_int_numeral)
  show "\<lceil>1 / numeral b :: rat\<rceil> = - (- 1 div numeral b)"
    by (metis ceiling_def divide_minus_left floor_divide_of_int_eq of_int_minus of_int_1 of_int_numeral)
qed

lemmas float_eval = nearest_double_def binary_exponent_def bitlen_numeral_simps pow2_def pow10_def
  round_half_even_def Let_def floor_rat_numeral_simps trunc_zero_def py_float_def decimal_value_def
  parse_number_def parse_exponent_def parse_sign_def parse_inf_nan_def is_digit_def digits_value_def
  to_ascii_cp_def is_c_space_def

lemmas str_eval = py_def strip_def is_space_def upper_def upper_cp_def lower_ascii_def lower_cp_def
  split_comma_first_def


lemmas pipeline_eval = main_def merged_def seed_def seed_row_def merge_gk_def merge_def_def
  merge_pass_def merge_table_def merge_row_def new_player_def row_key_def player_name_def
  skip_name_def row_get_def normalise_name_def classify_def pos_raw_def dict_get_def POS_MAP_def
  gk_fields_def def_fields_def pass_fields_def zero_cell_def player_list_def add_points_def
  sort_desc_def calculate_points_def safe_int_def mk_row_def example_lib_def nfkd_def
  decompose_def NFKD_LATIN_def

lemma example_seed:
  "seed example_lib example_std =
     [(py ''jose'', \<lparr> player_id = 533, name = [74, 111, 115, 233], club = py ''Betis'', pos = py ''GK'',
         goals = 0, assists = 0, yellowCards = 1, redCards = 0, ownGoals = 0, penaltiesMissed = 0,
         shotsOnTarget = 0, cleanSheets = 0, saves = 0, penaltySaves = 0, goalsConceded = 0,
         tacklesWon = 0, interceptions = 0, keyPasses = 0, bigChancesCreated = 0, motm = 0 \<rparr>),
      (py ''pedri'', \<lparr> player_id = 500, name = py ''Pedri'', club = py ''Barcelona'', pos = py ''MID'',
         goals = 3, assists = 2, yellowCards = 0, redCards = 0, ownGoals = 0, penaltiesMissed = 0,
         shotsOnTarget = 0, cleanSheets = 0, saves = 0, penaltySaves = 0, goalsConceded = 0,
         tacklesWon = 0, interceptions = 0, keyPasses = 0, bigChancesCreated = 0, motm = 0 \<rparr>),
      (py ''gavi'', \<lparr> player_id = 391, name = py ''Gavi'', club = py ''Barcelona'', pos = py ''MID'',
         goals = 3, assists = 2, yellowCards = 0, redCards = 0, ownGoals = 0, penaltiesMissed = 0,
         shotsOnTarget = 0, cleanSheets = 0, saves = 0, penaltySaves = 0, goalsConceded = 0,
         tacklesWon = 0, interceptions = 0, keyPasses = 0, bigChancesCreated = 0, motm = 0 \<rparr>)]"
  by (simp add: example_std_def pipeline_eval float_eval str_eval)

lemma example_run:
  "main example_lib example_now (Some example_std) (Some example_gk) None (Some example_pass) =
     Written example_doc"
  by (simp add: example_std_def example_gk_def example_pass_def example_doc_def
      example_players_def example_now_def pipeline_eval float_eval str_eval)

subsection \<open>Coercion of decimal text\<close>

lemma round_half_even_of_int: "round_half_even (of_int m) = m"
  by (simp add: round_half_even_def)

lemma decimal_value_markers:
  "decimal_value L [] = None"
  "decimal_value L (py ''nan'') = None"
  "decimal_value L (py ''NaN'') = None"
  "decimal_value L (py ''None'') = None"
  by (simp_all add: float_eval str_eval)

lemma strip_None: "strip (py ''None'') = py ''None''"
  by (simp add: str_eval)

lemma safe_int_decimal:
  assumes "decimal_value L (strip (py_str val)) = Some x"
  shows "safe_int L val =
           (case nearest_double x of Finite d \<Rightarrow> trunc_zero d | Infinity \<Rightarrow> 0 | NaN \<Rightarrow> 0)"
proof -
  have n: "val \<noteq> PyNone"
    using assms by (auto simp: strip_None decimal_value_markers)
  have e: "val \<noteq> PyStr []"
    using assms by (auto simp: strip_def decimal_value_markers)
  have m: "strip (py_str val) \<notin> set [[], py ''nan'', py ''NaN'']"
    using assms by (auto simp: decimal_value_markers)
  have f: "py_float L (strip (py_str val)) = Inr (nearest_double x)"
    using assms by (simp add: py_float_def)
  show ?thesis
    using n e m f by (simp add: safe_int_def split: pyfloat.splits)
qed

lemma safe_int_not_decimal:
  assumes "decimal_value L (strip (py_str val)) = None"
  shows "safe_int L val = 0"
proof -
  have "py_float L (strip (py_str val)) = Inl ValueError \<or>
        py_float L (strip (py_str val)) = Inr Infinity \<or>
        py_float L (strip (py_str val)) = Inr NaN"
    using assms
    by (auto simp: py_float_def parse_inf_nan_def Let_def split: option.splits)
  then show ?thesis
    by (auto simp: safe_int_def)
qed

lemma nearest_double_int:
  assumes "1 \<le> n" and "n \<le> 2 ^ 53"
  shows "nearest_double (of_int n) = Finite (of_int n)"
proof -
  let ?a = "rat_of_int n"
  from assms have pos: "0 < n" by simp
  have a: "\<bar>?a\<bar> = ?a" using pos by simp
  have one: "1 \<le> ?a" using assms(1) by simp
  have be: "binary_exponent ?a = bitlen n - 1"
    using one by (simp add: binary_exponent_def)
  have lo: "1 \<le> bitlen n"
    using pos bitlen_nonneg [of n] bitlen_eq_zero_iff [of n] by linarith
  have "n < 2 ^ nat 54" using assms(2) by simp
  then have hi: "bitlen n \<le> 54"
    by (simp add: bitlen_le_iff_power)
  define k where "k = 53 - bitlen n"
  have t: "max (binary_exponent ?a) (- 1022) - 52 = - k"
    using lo by (simp add: be k_def)
  have "\<exists>m. ?a / pow2 (- k) = of_int m \<and> rat_of_int m * pow2 (- k) = ?a"
  proof (cases "0 \<le> k")
    case True
    then have "pow2 (- k) = 1 / 2 ^ nat k"
      by (cases "k = 0") (simp_all add: pow2_def)
    then have "?a / pow2 (- k) = of_int (n * 2 ^ nat k) \<and>
               rat_of_int (n * 2 ^ nat k) * pow2 (- k) = ?a"
      by simp
    then show ?thesis by blast
  next
    case False
    with hi have k: "k = - 1" by (simp add: k_def)
    then have "bitlen n = 54" by (simp add: k_def)
    with bitlen_bounds [OF pos] have "2 ^ 53 \<le> n" by simp
    with assms(2) have n: "n = 2 ^ 53" by simp
    have "?a / pow2 (- k) = of_int (2 ^ 52) \<and> rat_of_int (2 ^ 52) * pow2 (- k) = ?a"
      by (simp add: k n pow2_def)
    then show ?thesis by blast
  qed
  then obtain m where m: "?a / pow2 (- k) = of_int m" "rat_of_int m * pow2 (- k) = ?a"
    by blast
  have small: "\<not> (2 ^ 1024 \<le> ?a)"
  proof -
    have "?a \<le> 2 ^ 53" using assms(2)
      by (metis of_int_le_iff of_int_numeral of_int_power)
    also have "\<dots> < (2 :: rat) ^ 1024" by simp
    finally show ?thesis by simp
  qed
  have nz: "?a \<noteq> 0" using pos by simp
  show ?thesis
    unfolding nearest_double_def
    using nz small pos by (simp add: a t m round_half_even_of_int Let_def)
qed

lemma nearest_double_neg:
  assumes "0 < x" and "nearest_double x = Finite y"
  shows "nearest_double (- x) = Finite (- y)"
  using assms by (auto simp: nearest_double_def Let_def split: if_splits)

lemma nearest_double_integer:
  assumes "x \<in> \<int>" and "\<bar>x\<bar> \<le> 2 ^ 53"
  shows "nearest_double x = Finite x"
proof -
  from assms(1) obtain n where x: "x = of_int n" by (auto elim: Ints_cases)
  from assms(2) have b: "\<bar>n\<bar> \<le> 2 ^ 53"
    unfolding x by (metis of_int_abs of_int_le_iff of_int_numeral of_int_power)
  consider "n = 0" | "1 \<le> n" | "n \<le> - 1" by linarith
  then show ?thesis
  proof cases
    case 1
    then show ?thesis by (simp add: x nearest_double_def)
  next
    case 2
    with b show ?thesis unfolding x by (intro nearest_double_int) simp_all
  next
    case 3
    with b have "nearest_double (of_int (- n)) = Finite (of_int (- n))"
      by (intro nearest_double_int) simp_all
    moreover from 3 have "0 < rat_of_int (- n)" by simp
    ultimately have "nearest_double (- rat_of_int (- n)) = Finite (- rat_of_int (- n))"
      by (rule nearest_double_neg [rotated])
    then show ?thesis by (simp add: x)
  qed
qed

subsection \<open>Scoring\<close>

text \<open>
  C1. For every record, \<open>calculate_points\<close> returns the positional additions of the
  record's position (none for a position that is not GK, DEF, MID or FWD) plus the
  shared penalties; the two divisions of the GK rule are floors of the exact
  quotients.
\<close>

theorem calculate_points_formula:
  "calculate_points p =
     (if pos p = py ''GK'' then
        cleanSheets p * 4 + \<lfloor>rat_of_int (saves p) / 3\<rfloor> + penaltySaves p * 5
          - \<lfloor>rat_of_int (goalsConceded p) / 2\<rfloor>
      else if pos p = py ''DEF'' then
        goals p * 6 + assists p * 3 + cleanSheets p * 4 + tacklesWon p + interceptions p
      else if pos p = py ''MID'' then
        goals p * 5 + assists p * 3 + cleanSheets p + keyPasses p + shotsOnTarget p
          + bigChancesCreated p
      else if pos p = py ''FWD'' then
        goals p * 4 + assists p * 3 + shotsOnTarget p + bigChancesCreated p
      else 0)
     + (yellowCards p * (- 1) + redCards p * (- 3) + ownGoals p * (- 2)
        + penaltiesMissed p * (- 2))"
proof -
  have f3: "\<lfloor>rat_of_int (saves p) / 3\<rfloor> = saves p div 3"
    using floor_divide_of_int_eq [of "saves p" 3, where ?'a = rat] by simp
  have f2: "\<lfloor>rat_of_int (goalsConceded p) / 2\<rfloor> = goalsConceded p div 2"
    using floor_divide_of_int_eq [of "goalsConceded p" 2, where ?'a = rat] by simp
  show ?thesis
    unfolding f3 f2 by (simp add: calculate_points_def Let_def)
qed

text \<open>The two scoring examples of the specification.\<close>

lemma calculate_points_examples:
  "calculate_points (add_points
     \<lparr> player_id = 1, name = py ''d'', club = py ''c'', pos = py ''DEF'', goals = 1,
       assists = 1, yellowCards = 1, redCards = 0, ownGoals = 0, penaltiesMissed = 0,
       shotsOnTarget = 0, cleanSheets = 1, saves = 0, penaltySaves = 0, goalsConceded = 0,
       tacklesWon = 2, interceptions = 3, keyPasses = 0, bigChancesCreated = 0, motm = 0 \<rparr>)
     = 17"
  "calculate_points
     \<lparr> player_id = 2, name = py ''g'', club = py ''c'', pos = py ''GK'', goals = 0,
       assists = 0, yellowCards = 0, redCards = 0, ownGoals = 0, penaltiesMissed = 0,
       shotsOnTarget = 0, cleanSheets = 2, saves = 10, penaltySaves = 1, goalsConceded = 3,
       tacklesWon = 0, interceptions = 0, keyPasses = 0, bigChancesCreated = 0, motm = 0 \<rparr>
     = 15"
  by (simp_all add: calculate_points_def add_points_def py_def)

subsection \<open>Process exit\<close>

text \<open>
  C2, as the code has it. The run exits with code 1 and writes nothing exactly when
  the primary fetch returns no table; with any primary table, one with no rows
  included, it exits with code 0 and writes the document, whatever the three
  secondary fetches return.
\<close>

theorem main_exit:
  "exit_code (main L now None gk defn passing) = 1 \<and>
   written (main L now None gk defn passing) = None \<and>
   exit_code (main L now (Some t) gk defn passing) = 0 \<and>
   written (main L now (Some t) gk defn passing) \<noteq> None"
  by (simp add: main_def)

text \<open>
  C2 as stated fails: a primary table with no rows is not \<open>None\<close>, so the run writes
  a document with no players and exits with code 0.
\<close>

theorem main_empty_primary_counterexample:
  "exit_code (main example_lib (py ''2025-01-01T00:00:00'') (Some []) None None None) = 0 \<and>
   written (main example_lib (py ''2025-01-01T00:00:00'') (Some []) None None None) =
     Some \<lparr> updatedAt = py ''2025-01-01T00:00:00Z'', season = py ''2024-25'',
            league = py ''La Liga'', source = py ''FBref.com'', players_out = [] \<rparr>"
  by (simp add: main_def merged_def seed_def merge_pass_def merge_def_def merge_gk_def
      merge_table_def player_list_def sort_desc_def py_def)

subsection \<open>The record merger\<close>

text \<open>
  C3. No enrichment pass changes the sequence of keys of the record mapping, so
  after the three passes the keys are those of the seeding pass, which are the
  normalised names of the rows of the primary table that are not skipped; and the
  name of every record of the written document normalises to such a key, whatever
  the secondary tables hold.
\<close>

theorem keys_from_primary:
  "map fst (merge_gk L gk ps) = map fst ps \<and>
   map fst (merge_def L defn ps) = map fst ps \<and>
   map fst (merge_pass L passing ps) = map fst ps \<and>
   map fst (merged L t gk defn passing) = map fst (seed L t) \<and>
   fst ` set (seed L t) = row_key L ` {r \<in> set t. \<not> skip_name (player_name r)} \<and>
   (main L now (Some t) gk defn passing = Written doc \<longrightarrow>
      (\<forall>q\<in>set (players_out doc).
         normalise_name L (PyStr (name q))
           \<in> row_key L ` {r \<in> set t. \<not> skip_name (player_name r)}))"
proof -
  have v: "\<And>upd tbl. map fst (merge_table L upd tbl ps) = map fst ps"
    by (rule view_keys [where g = "\<lambda>_. ()"], rule merge_table_view) simp
  have m: "map fst (merged L t gk defn passing) = map fst (seed L t)"
    by (rule view_keys [where g = "\<lambda>_. ()"], rule merged_view) simp_all
  have o: "normalise_name L (PyStr (name q))
           \<in> row_key L ` {r \<in> set t. \<not> skip_name (player_name r)}"
    if w: "main L now (Some t) gk defn passing = Written doc" and q: "q \<in> set (players_out doc)"
    for q
  proof -
    from output_mem [OF w q, where g = name] obtain p r where
      "q = add_points p" "r \<in> set t" "\<not> skip_name (player_name r)"
      "name p = name (new_player L r)"
      by (auto simp: gk_fields_def def_fields_def pass_fields_def)
    then show ?thesis
      by (auto simp: add_points_def new_player_def row_key_def Let_def)
  qed
  from v m o seed_keys show ?thesis
    unfolding merge_gk_def merge_def_def merge_pass_def by blast
qed

theorem keys_from_primary_witness:
  "main example_lib example_now (Some example_std) (Some example_gk) None (Some example_pass)
     = Written example_doc \<and>
   map name (players_out example_doc) = [py ''Pedri'', py ''Gavi'', [74, 111, 115, 233]] \<and>
   list_all (\<lambda>q. normalise_name example_lib (PyStr (name q))
              \<in> row_key example_lib ` {r \<in> set example_std. \<not> skip_name (player_name r)})
     (players_out example_doc) \<and>
   py ''ghost'' \<notin> fst ` set (seed example_lib example_std) \<and>
   row_key example_lib (example_gk ! 1) = py ''ghost'' \<and>
   row_key example_lib (example_pass ! 0) = py ''ghost''"
proof -
  note k = keys_from_primary [of example_lib "Some example_gk" "[]" None "Some example_pass"
      example_std example_now example_doc]
  have 1: "list_all (\<lambda>q. normalise_name example_lib (PyStr (name q))
              \<in> row_key example_lib ` {r \<in> set example_std. \<not> skip_name (player_name r)})
     (players_out example_doc)"
    using k example_run by (simp add: list_all_iff)
  have 2: "py ''ghost'' \<notin> fst ` set (seed example_lib example_std)"
    by (simp add: example_seed py_def)
  have 3: "row_key example_lib (example_gk ! 1) = py ''ghost''"
    by (simp add: example_gk_def pipeline_eval str_eval)
  have 4: "row_key example_lib (example_pass ! 0) = py ''ghost''"
    by (simp add: example_pass_def pipeline_eval str_eval)
  have 5: "map name (players_out example_doc) = [py ''Pedri'', py ''Gavi'', [74, 111, 115, 233]]"
    by (simp add: example_doc_def example_players_def)
  from example_run 1 2 3 4 5 show ?thesis by blast
qed

text \<open>
  C4. Each enrichment pass leaves every record equal to what it was up to the
  fields the pass owns, key by key; and after the three passes the id, name, club,
  position, the standard statistics and motm of every record are those of the
  seeding pass.
\<close>

theorem enrichment_frame:
  "map (apsnd erase_gk) (merge_gk L gk ps) = map (apsnd erase_gk) ps \<and>
   map (apsnd erase_def) (merge_def L defn ps) = map (apsnd erase_def) ps \<and>
   map (apsnd erase_pass) (merge_pass L passing ps) = map (apsnd erase_pass) ps \<and>
   map (apsnd standard_view) (merged L std gk defn passing) =
     map (apsnd standard_view) (seed L std)"
proof -
  have 1: "map (apsnd erase_gk) (merge_gk L gk ps) = map (apsnd erase_gk) ps"
    unfolding merge_gk_def
    by (rule merge_table_view) (simp add: erase_gk_def gk_fields_def)
  have 2: "map (apsnd erase_def) (merge_def L defn ps) = map (apsnd erase_def) ps"
    unfolding merge_def_def
    by (rule merge_table_view) (simp add: erase_def_def def_fields_def)
  have 3: "map (apsnd erase_pass) (merge_pass L passing ps) = map (apsnd erase_pass) ps"
    unfolding merge_pass_def
    by (rule merge_table_view) (simp add: erase_pass_def pass_fields_def)
  have 4: "map (apsnd standard_view) (merged L std gk defn passing) =
     map (apsnd standard_view) (seed L std)"
    by (rule merged_view)
      (simp_all add: standard_view_def gk_fields_def def_fields_def pass_fields_def)
  from 1 2 3 4 show ?thesis by blast
qed

text \<open>
  C5. With the primary table fetched, a secondary fetch that fails or yields no
  rows leaves the mapping as it was; the run still writes the document, scored and
  sorted from the mapping the other two passes produce; and every record of it has
  0 in the fields that source owns.
\<close>

theorem secondary_failure:
  "((gk = None \<or> gk = Some []) \<longrightarrow>
      merge_gk L gk ps = ps \<and>
      main L now (Some t) gk defn passing =
        Written \<lparr> updatedAt = now @ py ''Z'', season = py ''2024-25'', league = py ''La Liga'',
                  source = py ''FBref.com'',
                  players_out = sort_desc (player_list
                     (merge_pass L passing (merge_def L defn (seed L t)))) \<rparr> \<and>
      (\<forall>doc. main L now (Some t) gk defn passing = Written doc \<longrightarrow>
         (\<forall>q\<in>set (players_out doc).
            cleanSheets q = 0 \<and> saves q = 0 \<and> penaltySaves q = 0 \<and> goalsConceded q = 0))) \<and>
   ((defn = None \<or> defn = Some []) \<longrightarrow>
      merge_def L defn ps = ps \<and>
      main L now (Some t) gk defn passing =
        Written \<lparr> updatedAt = now @ py ''Z'', season = py ''2024-25'', league = py ''La Liga'',
                  source = py ''FBref.com'',
                  players_out = sort_desc (player_list
                     (merge_pass L passing (merge_gk L gk (seed L t)))) \<rparr> \<and>
      (\<forall>doc. main L now (Some t) gk defn passing = Written doc \<longrightarrow>
         (\<forall>q\<in>set (players_out doc). tacklesWon q = 0 \<and> interceptions q = 0))) \<and>
   ((passing = None \<or> passing = Some []) \<longrightarrow>
      merge_pass L passing ps = ps \<and>
      main L now (Some t) gk defn passing =
        Written \<lparr> updatedAt = now @ py ''Z'', season = py ''2024-25'', league = py ''La Liga'',
                  source = py ''FBref.com'',
                  players_out = sort_desc (player_list
                     (merge_def L defn (merge_gk L gk (seed L t)))) \<rparr> \<and>
      (\<forall>doc. main L now (Some t) gk defn passing = Written doc \<longrightarrow>
         (\<forall>q\<in>set (players_out doc). keyPasses q = 0 \<and> bigChancesCreated q = 0)))"
proof -
  let ?D = "\<lambda>X. Written \<lparr> updatedAt = now @ py ''Z'', season = py ''2024-25'',
      league = py ''La Liga'', source = py ''FBref.com'',
      players_out = sort_desc (player_list X) \<rparr>"
  have A: "merge_gk L gk ps = ps \<and>
      main L now (Some t) gk defn passing =
        ?D (merge_pass L passing (merge_def L defn (seed L t))) \<and>
      (\<forall>doc. main L now (Some t) gk defn passing = Written doc \<longrightarrow>
         (\<forall>q\<in>set (players_out doc).
            cleanSheets q = 0 \<and> saves q = 0 \<and> penaltySaves q = 0 \<and> goalsConceded q = 0))"
    if h: "gk = None \<or> gk = Some []"
  proof -
    have s: "\<And>ps'. merge_gk L gk ps' = ps'"
      unfolding merge_gk_def by (rule merge_table_skip [OF h])
    have m: "main L now (Some t) gk defn passing =
        ?D (merge_pass L passing (merge_def L defn (seed L t)))"
      by (simp add: main_def merged_def s)
    have z: "cleanSheets q = 0 \<and> saves q = 0 \<and> penaltySaves q = 0 \<and> goalsConceded q = 0"
      if "q \<in> set (sort_desc (player_list (merge_pass L passing (merge_def L defn (seed L t)))))"
      for q
    proof -
      from two_pass_seed [where g = "\<lambda>p. (cleanSheets p, saves p, penaltySaves p, goalsConceded p)"
          and ?u1.0 = "def_fields L" and ?u2.0 = "pass_fields L", OF _ _
          that [unfolded merge_pass_def merge_def_def]]
      obtain p r where "q = add_points p"
        "(cleanSheets p, saves p, penaltySaves p, goalsConceded p) =
         (cleanSheets (new_player L r), saves (new_player L r), penaltySaves (new_player L r),
          goalsConceded (new_player L r))"
        by (auto simp: def_fields_def pass_fields_def)
      then show ?thesis
        by (simp add: add_points_def new_player_def Let_def)
    qed
    from s m z show ?thesis by auto
  qed
  have B: "merge_def L defn ps = ps \<and>
      main L now (Some t) gk defn passing =
        ?D (merge_pass L passing (merge_gk L gk (seed L t))) \<and>
      (\<forall>doc. main L now (Some t) gk defn passing = Written doc \<longrightarrow>
         (\<forall>q\<in>set (players_out doc). tacklesWon q = 0 \<and> interceptions q = 0))"
    if h: "defn = None \<or> defn = Some []"
  proof -
    have s: "\<And>ps'. merge_def L defn ps' = ps'"
      unfolding merge_def_def by (rule merge_table_skip [OF h])
    have m: "main L now (Some t) gk defn passing =
        ?D (merge_pass L passing (merge_gk L gk (seed L t)))"
      by (simp add: main_def merged_def s)
    have z: "tacklesWon q = 0 \<and> interceptions q = 0"
      if "q \<in> set (sort_desc (player_list (merge_pass L passing (merge_gk L gk (seed L t)))))"
      for q
    proof -
      from two_pass_seed [where g = "\<lambda>p. (tacklesWon p, interceptions p)"
          and ?u1.0 = "gk_fields L" and ?u2.0 = "pass_fields L", OF _ _
          that [unfolded merge_pass_def merge_gk_def]]
      obtain p r where "q = add_points p"
        "(tacklesWon p, interceptions p) =
         (tacklesWon (new_player L r), interceptions (new_player L r))"
        by (auto simp: gk_fields_def pass_fields_def)
      then show ?thesis
        by (simp add: add_points_def new_player_def Let_def)
    qed
    from s m z show ?thesis by auto
  qed
  have C: "merge_pass L passing ps = ps \<and>
      main L now (Some t) gk defn passing =
        ?D (merge_def L defn (merge_gk L gk (seed L t))) \<and>
      (\<forall>doc. main L now (Some t) gk defn passing = Written doc \<longrightarrow>
         (\<forall>q\<in>set (players_out doc). keyPasses q = 0 \<and> bigChancesCreated q = 0))"
    if h: "passing = None \<or> passing = Some []"
  proof -
    have s: "\<And>ps'. merge_pass L passing ps' = ps'"
      unfolding merge_pass_def by (rule merge_table_skip [OF h])
    have m: "main L now (Some t) gk defn passing =
        ?D (merge_def L defn (merge_gk L gk (seed L t)))"
      by (simp add: main_def merged_def s)
    have z: "keyPasses q = 0 \<and> bigChancesCreated q = 0"
      if "q \<in> set (sort_desc (player_list (merge_def L defn (merge_gk L gk (seed L t)))))"
      for q
    proof -
      from two_pass_seed [where g = "\<lambda>p. (keyPasses p, bigChancesCreated p)"
          and ?u1.0 = "gk_fields L" and ?u2.0 = "def_fields L", OF _ _
          that [unfolded merge_def_def merge_gk_def]]
      obtain p r where "q = add_points p"
        "(keyPasses p, bigChancesCreated p) =
         (keyPasses (new_player L r), bigChancesCreated (new_player L r))"
        by (auto simp: gk_fields_def def_fields_def)
      then show ?thesis
        by (simp add: add_points_def new_player_def Let_def)
    qed
    from s m z show ?thesis by auto
  qed
  from A B C show ?thesis by blast
qed

theorem secondary_failure_witness:
  "main example_lib example_now (Some example_std) (Some example_gk) None (Some example_pass)
     = Written example_doc \<and>
   players_out example_doc =
     sort_desc (player_list (merge_pass example_lib (Some example_pass)
        (merge_gk example_lib (Some example_gk) (seed example_lib example_std)))) \<and>
   length (players_out example_doc) = 3 \<and>
   list_all (\<lambda>q. tacklesWon q = 0 \<and> interceptions q = 0) (players_out example_doc) \<and>
   merge_def example_lib None (seed example_lib example_std) = seed example_lib example_std"
proof -
  note s = secondary_failure [of "Some example_gk" example_lib "seed example_lib example_std"
      example_now example_std None "Some example_pass"]
  from s have m: "main example_lib example_now (Some example_std) (Some example_gk) None
       (Some example_pass) =
     Written \<lparr> updatedAt = example_now @ py ''Z'', season = py ''2024-25'',
       league = py ''La Liga'', source = py ''FBref.com'',
       players_out = sort_desc (player_list (merge_pass example_lib (Some example_pass)
         (merge_gk example_lib (Some example_gk) (seed example_lib example_std)))) \<rparr>"
    by blast
  have 1: "players_out example_doc =
     sort_desc (player_list (merge_pass example_lib (Some example_pass)
        (merge_gk example_lib (Some example_gk) (seed example_lib example_std))))"
  proof -
    from m have "example_doc = \<lparr> updatedAt = example_now @ py ''Z'', season = py ''2024-25'',
       league = py ''La Liga'', source = py ''FBref.com'',
       players_out = sort_desc (player_list (merge_pass example_lib (Some example_pass)
         (merge_gk example_lib (Some example_gk) (seed example_lib example_std)))) \<rparr>"
      unfolding example_run by simp
    then have "players_out example_doc = players_out \<lparr> updatedAt = example_now @ py ''Z'',
       season = py ''2024-25'', league = py ''La Liga'', source = py ''FBref.com'',
       players_out = sort_desc (player_list (merge_pass example_lib (Some example_pass)
         (merge_gk example_lib (Some example_gk) (seed example_lib example_std)))) \<rparr>"
      by (rule arg_cong)
    then show ?thesis by simp
  qed
  from s example_run
  have "\<forall>q\<in>set (players_out example_doc). tacklesWon q = 0 \<and> interceptions q = 0"
    by blast
  then have 2: "list_all (\<lambda>q. tacklesWon q = 0 \<and> interceptions q = 0) (players_out example_doc)"
    by (simp add: list_all_iff)
  have 3: "length (players_out example_doc) = 3"
    by (simp add: example_doc_def example_players_def)
  from s have 4: "merge_def example_lib None (seed example_lib example_std) =
      seed example_lib example_std"
    by blast
  from example_run 1 2 3 4 show ?thesis by blast
qed

subsection \<open>The written document\<close>

text \<open>
  C7. The players of the written document are the scored records of the merged
  mapping, in descending order of points, and the records of any one points value
  stand in the order they have in the list made from the mapping.
\<close>

theorem output_sorted_stable:
  assumes "main L now std gk defn passing = Written doc"
  shows "\<exists>t. std = Some t \<and>
           sorted_wrt (\<lambda>a b. points b \<le> points a) (players_out doc) \<and>
           mset (players_out doc) = mset (player_list (merged L t gk defn passing)) \<and>
           (\<forall>v. filter (\<lambda>q. points q = v) (players_out doc) =
                filter (\<lambda>q. points q = v) (player_list (merged L t gk defn passing)))"
proof -
  from main_Written [OF assms] obtain t where t: "std = Some t"
    and out: "players_out doc = sort_desc (player_list (merged L t gk defn passing))"
    by blast
  let ?xs = "player_list (merged L t gk defn passing)"
  have "sorted (map (\<lambda>p. - points p) (sort_desc ?xs))"
    unfolding sort_desc_def by (rule sorted_sort_key)
  then have 1: "sorted_wrt (\<lambda>a b. points b \<le> points a) (sort_desc ?xs)"
    by (simp add: sorted_map)
  have 2: "mset (sort_desc ?xs) = mset ?xs"
    by (simp add: sort_desc_def)
  have 3: "filter (\<lambda>q. points q = v) (sort_desc ?xs) = filter (\<lambda>q. points q = v) ?xs" for v
  proof -
    have "filter (\<lambda>q. - points q = - v) (sort_key (\<lambda>p. - points p) ?xs) =
          filter (\<lambda>q. - points q = - v) ?xs"
      by (rule sort_key_stable)
    then show ?thesis by (simp add: sort_desc_def)
  qed
  from t out 1 2 3 show ?thesis by simp
qed

theorem output_sorted_stable_witness:
  "main example_lib example_now (Some example_std) (Some example_gk) None (Some example_pass)
     = Written example_doc \<and>
   map name (map snd (merged example_lib example_std (Some example_gk) None (Some example_pass))) =
     [[74, 111, 115, 233], py ''Pedri'', py ''Gavi''] \<and>
   map name (players_out example_doc) = [py ''Pedri'', py ''Gavi'', [74, 111, 115, 233]] \<and>
   map points (players_out example_doc) = [21, 21, 14] \<and>
   sorted_wrt (\<lambda>a b. points b \<le> points a) (players_out example_doc) \<and>
   filter (\<lambda>q. points q = 21) (players_out example_doc) =
     filter (\<lambda>q. points q = 21)
       (player_list (merged example_lib example_std (Some example_gk) None (Some example_pass)))"
proof -
  from output_sorted_stable [OF example_run]
  have s: "sorted_wrt (\<lambda>a b. points b \<le> points a) (players_out example_doc)"
    and f: "filter (\<lambda>q. points q = 21) (players_out example_doc) =
     filter (\<lambda>q. points q = 21)
       (player_list (merged example_lib example_std (Some example_gk) None (Some example_pass)))"
    by auto
  have "map (apsnd name) (merged example_lib example_std (Some example_gk) None (Some example_pass))
      = map (apsnd name) (seed example_lib example_std)"
    by (rule merged_view) (simp_all add: gk_fields_def def_fields_def pass_fields_def)
  then have "map snd (map (apsnd name)
       (merged example_lib example_std (Some example_gk) None (Some example_pass)))
      = map snd (map (apsnd name) (seed example_lib example_std))"
    by simp
  then have m: "map name (map snd
       (merged example_lib example_std (Some example_gk) None (Some example_pass))) =
     [[74, 111, 115, 233], py ''Pedri'', py ''Gavi'']"
    by (simp add: example_seed comp_def)
  have n: "map name (players_out example_doc) = [py ''Pedri'', py ''Gavi'', [74, 111, 115, 233]]"
    by (simp add: example_doc_def example_players_def)
  have p: "map points (players_out example_doc) = [21, 21, 14]"
    by (simp add: example_doc_def example_players_def)
  from example_run s f m n p show ?thesis by blast
qed

text \<open>
  C10. Every record of the written document has an id from 0 up to 99999: the
  absolute value of the hash of the display name of a row of the primary table,
  modulo 100000.
\<close>

theorem output_id_range:
  assumes "main L now std gk defn passing = Written doc" and "q \<in> set (players_out doc)"
  shows "0 \<le> player_id q \<and> player_id q < 100000 \<and>
         (\<exists>t r. std = Some t \<and> r \<in> set t \<and>
            player_id q = \<bar>str_hash L (player_name r)\<bar> mod 100000)"
proof -
  from output_mem [OF assms, where g = player_id] obtain t p r where
    "std = Some t" "q = add_points p" "r \<in> set t" "player_id p = player_id (new_player L r)"
    by (auto simp: gk_fields_def def_fields_def pass_fields_def)
  then have "std = Some t \<and> r \<in> set t \<and> player_id q = \<bar>str_hash L (player_name r)\<bar> mod 100000"
    by (simp add: add_points_def new_player_def Let_def)
  then show ?thesis by auto
qed

theorem output_id_range_witness:
  "main example_lib example_now (Some example_std) (Some example_gk) None (Some example_pass)
     = Written example_doc \<and>
   map player_id (players_out example_doc) = [500, 391, 533] \<and>
   str_hash example_lib (py ''Pedri'') = - 500 \<and>
   list_all (\<lambda>q. 0 \<le> player_id q \<and> player_id q < 100000) (players_out example_doc)"
proof -
  have "\<forall>q\<in>set (players_out example_doc). 0 \<le> player_id q \<and> player_id q < 100000"
    using output_id_range [OF example_run] by blast
  then have 1: "list_all (\<lambda>q. 0 \<le> player_id q \<and> player_id q < 100000) (players_out example_doc)"
    by (simp add: list_all_iff)
  have 2: "map player_id (players_out example_doc) = [500, 391, 533]"
    by (simp add: example_doc_def example_players_def)
  have 3: "str_hash example_lib (py ''Pedri'') = - 500"
    by (simp add: example_lib_def py_def)
  from example_run 1 2 3 show ?thesis by blast
qed

subsection \<open>Identity normalisation and position classification\<close>




text \<open>
  C9. The classifier reads the tag up to its first comma only; its result is one
  of GK, DEF, MID and FWD; it is the table's entry for the stripped, upper-cased
  code (GK for GK, DEF for DF, MID for MF, FWD for FW) and MID for a code the table
  does not have; and it maps \<open>DF,MF\<close> to DEF, \<open>FW\<close> to FWD and \<open>XX\<close> to MID.
\<close>

theorem classify_first_code:
  "(44 \<notin> set code \<longrightarrow> classify L (code @ 44 # rest) = classify L code) \<and>
   classify L tag \<in> {py ''GK'', py ''DEF'', py ''MID'', py ''FWD''} \<and>
   (map_of POS_MAP (pos_raw L tag) = None \<longrightarrow> classify L tag = py ''MID'') \<and>
   (map_of POS_MAP (pos_raw L tag) = Some v \<longrightarrow> classify L tag = v) \<and>
   (pos_raw L tag = py ''GK'' \<longrightarrow> classify L tag = py ''GK'') \<and>
   (pos_raw L tag = py ''DF'' \<longrightarrow> classify L tag = py ''DEF'') \<and>
   (pos_raw L tag = py ''MF'' \<longrightarrow> classify L tag = py ''MID'') \<and>
   (pos_raw L tag = py ''FW'' \<longrightarrow> classify L tag = py ''FWD'') \<and>
   classify L (py ''DF,MF'') = py ''DEF'' \<and>
   classify L (py ''FW'') = py ''FWD'' \<and>
   classify L (py ''XX'') = py ''MID''"
proof -
  have 1: "classify L (code @ 44 # rest) = classify L code" if "44 \<notin> set code"
  proof -
    from that have a: "takeWhile (\<lambda>c. c \<noteq> 44) (code @ 44 # rest) = code"
      by (induction code) auto
    from that have b: "takeWhile (\<lambda>c. c \<noteq> 44) code = code"
      by (induction code) auto
    show ?thesis
      by (simp only: classify_def pos_raw_def split_comma_first_def a b)
  qed
  have 2: "classify L tag \<in> {py ''GK'', py ''DEF'', py ''MID'', py ''FWD''}"
    by (simp add: classify_def dict_get_def POS_MAP_def)
  have 3: "classify L tag = py ''MID''" if "map_of POS_MAP (pos_raw L tag) = None"
    using that by (simp add: classify_def dict_get_def)
  have 4: "classify L tag = v" if "map_of POS_MAP (pos_raw L tag) = Some v"
    using that by (simp add: classify_def dict_get_def)
  have 5: "(pos_raw L tag = py ''GK'' \<longrightarrow> classify L tag = py ''GK'') \<and>
   (pos_raw L tag = py ''DF'' \<longrightarrow> classify L tag = py ''DEF'') \<and>
   (pos_raw L tag = py ''MF'' \<longrightarrow> classify L tag = py ''MID'') \<and>
   (pos_raw L tag = py ''FW'' \<longrightarrow> classify L tag = py ''FWD'')"
    by (simp add: classify_def dict_get_def POS_MAP_def py_def)
  have 6: "classify L (py ''DF,MF'') = py ''DEF'' \<and>
   classify L (py ''FW'') = py ''FWD'' \<and>
   classify L (py ''XX'') = py ''MID''"
    by (simp add: classify_def pos_raw_def dict_get_def POS_MAP_def str_eval)
  from 1 2 3 4 5 6 show ?thesis by blast
qed

theorem classify_first_code_witness:
  "44 \<notin> set (py ''df '') \<and>
   classify example_lib (py ''df '' @ 44 # py ''FW,GK'') = classify example_lib (py ''df '') \<and>
   pos_raw example_lib (py ''df ,FW,GK'') = py ''DF'' \<and>
   classify example_lib (py ''df ,FW,GK'') = py ''DEF'' \<and>
   map_of POS_MAP (pos_raw example_lib (py ''nan'')) = None \<and>
   classify example_lib (py ''nan'') = py ''MID'' \<and>
   map_of POS_MAP (pos_raw example_lib (py ''gk'')) = Some (py ''GK'') \<and>
   classify example_lib (py ''gk'') = py ''GK''"
proof -
  have a: "44 \<notin> set (py ''df '')" by (simp add: py_def)
  have b: "pos_raw example_lib (py ''df ,FW,GK'') = py ''DF''"
    by (simp add: pos_raw_def str_eval)
  have c: "map_of POS_MAP (pos_raw example_lib (py ''nan'')) = None"
    by (simp add: pos_raw_def POS_MAP_def str_eval)
  have d: "map_of POS_MAP (pos_raw example_lib (py ''gk'')) = Some (py ''GK'')"
    by (simp add: pos_raw_def POS_MAP_def str_eval)
  have e: "py ''df '' @ 44 # py ''FW,GK'' = py ''df ,FW,GK''" by (simp add: py_def)
  note t1 = classify_first_code [of "py ''df ''" example_lib "py ''FW,GK''" "py ''df ,FW,GK''" "py ''DEF''"]
  note t2 = classify_first_code [of "[]" example_lib "[]" "py ''nan''" "py ''MID''"]
  note t3 = classify_first_code [of "[]" example_lib "[]" "py ''gk''" "py ''GK''"]
  from t1 a have 1: "classify example_lib (py ''df '' @ 44 # py ''FW,GK'') = classify example_lib (py ''df '')"
    by blast
  from t1 b have 2: "classify example_lib (py ''df ,FW,GK'') = py ''DEF''" by blast
  from t2 c have 3: "classify example_lib (py ''nan'') = py ''MID''" by blast
  from t3 d have 4: "classify example_lib (py ''gk'') = py ''GK''" by blast
  from a b c d 1 2 3 4 show ?thesis by blast
qed

subsection \<open>Value coercion\<close>

text \<open>
  C6, as the code has it. \<open>safe_int\<close> is total. It returns 0 for \<open>None\<close>, for a text
  that strips to nothing or to \<open>nan\<close> or \<open>NaN\<close>, and for every text that is not a
  decimal number. For a text that is the decimal number \<open>x\<close> it returns the binary64
  value nearest to \<open>x\<close> truncated toward zero, and 0 when that value is infinite;
  this is the truncation of \<open>x\<close> itself whenever \<open>x\<close> is an integer of magnitude at
  most \<open>2^53\<close>, as for \<open>12.0\<close>.
\<close>

theorem safe_int_policy:
  "((val = PyNone \<or> strip (py_str val) \<in> {[], py ''nan'', py ''NaN''}) \<longrightarrow>
      safe_int L val = 0) \<and>
   (decimal_value L (strip (py_str val)) = None \<longrightarrow> safe_int L val = 0) \<and>
   (decimal_value L (strip (py_str val)) = Some x \<longrightarrow>
      safe_int L val =
        (case nearest_double x of Finite d \<Rightarrow> trunc_zero d | Infinity \<Rightarrow> 0 | NaN \<Rightarrow> 0)) \<and>
   (decimal_value L (strip (py_str val)) = Some x \<and> x \<in> \<int> \<and> \<bar>x\<bar> \<le> 2 ^ 53 \<longrightarrow>
      safe_int L val = trunc_zero x)"
proof -
  have 1: "safe_int L val = 0"
    if "val = PyNone \<or> strip (py_str val) \<in> {[], py ''nan'', py ''NaN''}"
    using that by (auto simp: safe_int_def)
  have 4: "safe_int L val = trunc_zero x"
    if "decimal_value L (strip (py_str val)) = Some x \<and> x \<in> \<int> \<and> \<bar>x\<bar> \<le> 2 ^ 53"
    using that safe_int_decimal [of L val x] nearest_double_integer [of x] by simp
  from 1 safe_int_not_decimal [of L val] safe_int_decimal [of L val x] 4
  show ?thesis by blast
qed

theorem safe_int_policy_witness:
  "decimal_value example_lib (strip (py_str (PyStr (py ''12.0'')))) = Some 12 \<and>
   safe_int example_lib (PyStr (py ''12.0'')) = 12 \<and>
   decimal_value example_lib (strip (py_str (PyOther (py '' -12.7e0 '')))) = Some (- 127 / 10) \<and>
   nearest_double (- 127 / 10) = Finite (- 3574732204225331 / 281474976710656) \<and>
   safe_int example_lib (PyOther (py '' -12.7e0 '')) = - 12 \<and>
   decimal_value example_lib (strip (py_str (PyStr (py ''abc'')))) = None \<and>
   safe_int example_lib (PyStr (py ''abc'')) = 0 \<and>
   safe_int example_lib (PyOther (py ''nan'')) = 0 \<and>
   safe_int example_lib (PyStr (py ''   '')) = 0 \<and>
   safe_int example_lib PyNone = 0"
proof -
  have a: "decimal_value example_lib (strip (py_str (PyStr (py ''12.0'')))) = Some 12"
    by (simp add: float_eval str_eval)
  have b: "decimal_value example_lib (strip (py_str (PyOther (py '' -12.7e0 '')))) =
      Some (- 127 / 10)"
    by (simp add: float_eval str_eval)
  have c: "nearest_double (- 127 / 10) = Finite (- 3574732204225331 / 281474976710656)"
    by (simp add: float_eval)
  have d: "decimal_value example_lib (strip (py_str (PyStr (py ''abc'')))) = None"
    by (simp add: float_eval str_eval)
  have e: "strip (py_str (PyOther (py ''nan''))) \<in> {[], py ''nan'', py ''NaN''}"
    by (simp add: str_eval)
  have f: "strip (py_str (PyStr (py ''   ''))) \<in> {[], py ''nan'', py ''NaN''}"
    by (simp add: str_eval)
  have i: "(12 :: rat) \<in> \<int> \<and> \<bar>12 :: rat\<bar> \<le> 2 ^ 53" by simp
  from safe_int_policy [of "PyStr (py ''12.0'')" example_lib 12] a i
  have 1: "safe_int example_lib (PyStr (py ''12.0'')) = trunc_zero 12" by blast
  from safe_int_policy [of "PyOther (py '' -12.7e0 '')" example_lib "- 127 / 10"] b
  have "safe_int example_lib (PyOther (py '' -12.7e0 '')) =
      (case nearest_double (- 127 / 10) of Finite d \<Rightarrow> trunc_zero d | Infinity \<Rightarrow> 0 | NaN \<Rightarrow> 0)"
    by blast
  then have 2: "safe_int example_lib (PyOther (py '' -12.7e0 '')) = - 12"
    unfolding c by (simp add: trunc_zero_def floor_rat_numeral_simps)
  from safe_int_policy [of "PyStr (py ''abc'')" example_lib 0] d
  have 3: "safe_int example_lib (PyStr (py ''abc'')) = 0" by blast
  from safe_int_policy [of "PyOther (py ''nan'')" example_lib 0] e
  have 4: "safe_int example_lib (PyOther (py ''nan'')) = 0" by blast
  from safe_int_policy [of "PyStr (py ''   '')" example_lib 0] f
  have 5: "safe_int example_lib (PyStr (py ''   '')) = 0" by blast
  from safe_int_policy [of PyNone example_lib 0]
  have 6: "safe_int example_lib PyNone = 0" by blast
  have 7: "trunc_zero 12 = 12" by (simp add: trunc_zero_def)
  from a b c d 1 2 3 4 5 6 7 show ?thesis by simp
qed

text \<open>
  C6 as stated fails where the conversion to a float rounds across an integer:
  9007199254740993 is a decimal number, and \<open>safe_int\<close> returns 9007199254740992 for
  it; 0.99999999999999999999 truncates to 0, and \<open>safe_int\<close> returns 1.
\<close>

theorem safe_int_rounding_counterexample:
  "decimal_value example_lib (strip (py_str (PyStr (py ''9007199254740993'')))) =
     Some 9007199254740993 \<and>
   trunc_zero 9007199254740993 = 9007199254740993 \<and>
   safe_int example_lib (PyStr (py ''9007199254740993'')) = 9007199254740992 \<and>
   decimal_value example_lib (strip (py_str (PyStr (py ''0.99999999999999999999'')))) =
     Some (99999999999999999999 / 100000000000000000000) \<and>
   trunc_zero (99999999999999999999 / 100000000000000000000) = 0 \<and>
   safe_int example_lib (PyStr (py ''0.99999999999999999999'')) = 1"
proof -
  have 1: "decimal_value example_lib (strip (py_str (PyStr (py ''9007199254740993'')))) =
     Some 9007199254740993"
    by (simp add: float_eval str_eval)
  have 2: "trunc_zero 9007199254740993 = 9007199254740993"
    by (simp add: trunc_zero_def)
  have 3: "safe_int example_lib (PyStr (py ''9007199254740993'')) = 9007199254740992"
    by (simp add: safe_int_def float_eval str_eval)
  have 4: "decimal_value example_lib (strip (py_str (PyStr (py ''0.99999999999999999999'')))) =
     Some (99999999999999999999 / 100000000000000000000)"
    by (simp add: float_eval str_eval)
  have 5: "trunc_zero (99999999999999999999 / 100000000000000000000) = 0"
    by (simp add: trunc_zero_def floor_rat_numeral_simps)
  have 6: "safe_int example_lib (PyStr (py ''0.99999999999999999999'')) = 1"
    by (simp add: safe_int_def float_eval str_eval)
  from 1 2 3 4 5 6 show ?thesis by blast
qed

end
